theory Spec2Isabelle
  imports Complex_Main "HOL-Library.Sublist"
begin

section \<open>Python values handled by the converter\<close>

text \<open>
  The converter (\<^verbatim>\<open>src/converter/converter.py\<close>) turns data product definitions into
  OpenAPI documents and writes them as JSON files. A document is the Python value that
  \<^verbatim>\<open>app.openapi()\<close> or \<^verbatim>\<open>json.loads\<close> returns: a dict keeps its insertion order
  (an association list), a finite float is kept by its exact value.
\<close>

datatype json =
    JNull
  | JBool bool
  | JInt int
  | JFloat real
  | JString string
  | JArray "json list"
  | JObject "(string \<times> json) list"

text \<open>A path is the list of its components; \<^verbatim>\<open>str(p)\<close> joins them with a slash.\<close>

type_synonym path = "string list"

text \<open>
  Every exception the converter can raise is a value. The string of \<open>ValueError\<close> and
  \<open>RuntimeError\<close> is the message, \<open>AttributeError obj attr\<close> names the object and the
  attribute that it lacks, \<open>CalledProcessError\<close> carries the exit status.
\<close>

datatype error =
    KeyError string
  | TypeError
  | AttributeError string string
  | ValueError string
  | RuntimeError string
  | ModuleLoadError string
  | SynthesisError
  | JSONDecodeError
  | CalledProcessError int

subsection \<open>Strings and truthiness\<close>

text \<open>\<^verbatim>\<open>s.removesuffix(suf)\<close>: one occurrence of a non-empty suffix is cut off.\<close>

definition removesuffix :: "string \<Rightarrow> string \<Rightarrow> string" where
  "removesuffix s suf =
     (if suf \<noteq> [] \<and> suffix suf s then take (length s - length suf) s else s)"

text \<open>An \<^verbatim>\<open>Optional[str]\<close> is false in a condition when it is None or the empty string.\<close>

fun truthy :: "string option \<Rightarrow> bool" where
  "truthy None = False"
| "truthy (Some s) = (s \<noteq> [])"

text \<open>The text an f-string puts in for an \<^verbatim>\<open>Optional[str]\<close>.\<close>

fun format_optional :: "string option \<Rightarrow> string" where
  "format_optional None = ''None''"
| "format_optional (Some s) = s"

fun join :: "string \<Rightarrow> string list \<Rightarrow> string" where
  "join sep [] = []"
| "join sep [x] = x"
| "join sep (x # y # ys) = x @ sep @ join sep (y # ys)"

subsection \<open>Dictionaries\<close>

text \<open>\<^verbatim>\<open>d[k] = v\<close>: an existing key keeps its place, a new key goes to the end.\<close>

fun setitem :: "(string \<times> json) list \<Rightarrow> string \<Rightarrow> json \<Rightarrow> (string \<times> json) list" where
  "setitem [] k v = [(k, v)]"
| "setitem ((k', v') # kvs) k v =
     (if k' = k then (k, v) # kvs else (k', v') # setitem kvs k v)"

fun type_name :: "json \<Rightarrow> string" where
  "type_name JNull = ''NoneType''"
| "type_name (JBool b) = ''bool''"
| "type_name (JInt i) = ''int''"
| "type_name (JFloat r) = ''float''"
| "type_name (JString s) = ''str''"
| "type_name (JArray xs) = ''list''"
| "type_name (JObject kvs) = ''dict''"

subsection \<open>Paths (pathlib)\<close>

definition str_path :: "path \<Rightarrow> string" where
  "str_path p = (if p = [] then ''.'' else join ''/'' p)"

definition as_posix :: "path \<Rightarrow> string" where
  "as_posix p = str_path p"

text \<open>
  \<^verbatim>\<open>name.rfind('.')\<close>, None for -1, and \<^verbatim>\<open>PurePath.suffix\<close>: the last dot of the final
  component starts the suffix unless it is the first or the last character.
\<close>

definition rfind_dot :: "string \<Rightarrow> nat option" where
  "rfind_dot nm =
     (if CHR ''.'' \<in> set nm
      then Some (length nm - 1 - length (takeWhile (\<lambda>c. c \<noteq> CHR ''.'') (rev nm)))
      else None)"

definition path_suffix :: "string \<Rightarrow> string" where
  "path_suffix nm =
     (case rfind_dot nm of
        None \<Rightarrow> []
      | Some i \<Rightarrow> if 0 < i \<and> i + 1 < length nm then drop i nm else [])"

text \<open>
  \<^verbatim>\<open>p.with_suffix(s)\<close> for the two suffixes the converter passes (the empty one and
  \<^verbatim>\<open>.json\<close>, both valid): a path with an empty name raises ValueError.
\<close>

definition with_suffix :: "path \<Rightarrow> string \<Rightarrow> error + path" where
  "with_suffix p s =
     (if p = [] \<or> last p = [] then Inl (ValueError (str_path p @ '' has an empty name''))
      else let nm = last p; old = path_suffix nm
           in Inr (butlast p @ [take (length nm - length old) nm @ s]))"

section \<open>The data product definition\<close>

text \<open>
  The fields of \<^verbatim>\<open>DataProductDefinition\<close> as pydantic holds them after validating the
  keyword arguments; \<open>'s\<close> is the type of the request and response models, which the
  converter only passes on.
\<close>

record 's DataProductDefinition =
  description :: "string option"
  name :: "string option"
  request :: 's
  response :: 's
  route_description :: "string option"
  route_summary :: "string option"
  summary :: string
  requires_authorization :: bool
  requires_consent :: bool

text \<open>
  \<^verbatim>\<open>DataProductDefinition.__init__\<close> (lines 30-37), applied to the validated fields:
  with a non-empty summary, a route description and a description that are None or
  empty are set to the summary.
\<close>

definition init :: "'s DataProductDefinition \<Rightarrow> 's DataProductDefinition" where
  "init kwargs =
     (if summary kwargs \<noteq> [] then
        let d1 = (if \<not> truthy (route_description kwargs)
                  then kwargs\<lparr>route_description := Some (summary kwargs)\<rparr> else kwargs);
            d2 = (if \<not> truthy (description d1)
                  then d1\<lparr>description := Some (summary d1)\<rparr> else d1)
        in d2
      else kwargs)"

section \<open>Synthesis of the OpenAPI document\<close>

text \<open>
  What \<^verbatim>\<open>export_openapi_spec\<close> declares to FastAPI (lines 47-89): the application, its
  one POST route and the parameters of the handler. A header is declared by its
  annotation, the default handed to \<^verbatim>\<open>Header\<close> (the ellipsis marks a required
  parameter) and its description.
\<close>

datatype py_annotation = Str | OptionalStr

datatype py_default = Ellipsis | PyNone

record header_param =
  param_name :: string
  annotation :: py_annotation
  default_value :: py_default
  header_description :: string

record 's post_route =
  route_path :: string
  summary_arg :: "string option"
  description_arg :: "string option"
  response_model :: 's
  params :: 's
  headers :: "header_param list"

record 's fastapi_app =
  title :: string
  app_description :: "string option"
  version :: string
  routes :: "'s post_route list"


definition fastapi_app_of :: "'s DataProductDefinition \<Rightarrow> 's fastapi_app" where
  \<open>fastapi_app_of definition =
     (let authorization_header_type =
            (if requires_authorization definition then Str else OptionalStr);
          authorization_header_default_value =
            (if requires_authorization definition then Ellipsis else PyNone);
          consent_header_type =
            (if requires_consent definition then Str else OptionalStr);
          consent_header_default_value =
            (if requires_consent definition then Ellipsis else PyNone);
          consent_header_description =
            (if requires_consent definition then ''Consent token''
             else ''Optional consent token'')
      in \<lparr> title = summary definition,
           app_description = description definition,
           version = ''1.0.0'',
           routes =
             [\<lparr> route_path = ''/'' @ format_optional (name definition),
                 summary_arg = route_summary definition,
                 description_arg = route_description definition,
                 response_model = response definition,
                 params = request definition,
                 headers =
                   [\<lparr> param_name = ''x_consent_token'',
                       annotation = consent_header_type,
                       default_value = consent_header_default_value,
                       header_description = consent_header_description \<rparr>,
                    \<lparr> param_name = ''authorization'',
                       annotation = authorization_header_type,
                       default_value = authorization_header_default_value,
                       header_description =
                         ''The login token. Value should be "Bearer [token]"'' \<rparr>,
                    \<lparr> param_name = ''x_authorization_provider'',
                       annotation = OptionalStr,
                       default_value = PyNone,
                       header_description =
                         ''The bare domain of the system that provided the token.'' \<rparr>] \<rparr>] \<rparr>)\<close>

text \<open>
  The loop of lines 93-95 on one entry \<open>data\<close> of \<^verbatim>\<open>openapi["paths"]\<close>: the
  operation id under \<^verbatim>\<open>data["post"]["operationId"]\<close> loses a trailing \<^verbatim>\<open>_post\<close>.
  A missing key is a KeyError, a value that is no dict cannot be indexed by a string,
  a value that is no string has no \<^verbatim>\<open>removesuffix\<close>.
\<close>

fun strip_operation_id :: "json \<Rightarrow> error + json" where
  "strip_operation_id (JObject data) =
     (case map_of data ''post'' of
        None \<Rightarrow> Inl (KeyError ''post'')
      | Some (JObject post) \<Rightarrow>
          (case map_of post ''operationId'' of
             None \<Rightarrow> Inl (KeyError ''operationId'')
           | Some (JString operation_id) \<Rightarrow>
               Inr (JObject (setitem data ''post''
                      (JObject (setitem post ''operationId''
                         (JString (removesuffix operation_id ''_post''))))))
           | Some v \<Rightarrow> Inl (AttributeError (type_name v) ''removesuffix''))
      | Some v \<Rightarrow> Inl TypeError)"
| "strip_operation_id v = Inl TypeError"

fun strip_paths :: "(string \<times> json) list \<Rightarrow> error + (string \<times> json) list" where
  "strip_paths [] = Inr []"
| "strip_paths ((p, data) # rest) =
     (case strip_operation_id data of
        Inl e \<Rightarrow> Inl e
      | Inr data' \<Rightarrow>
          (case strip_paths rest of
             Inl e \<Rightarrow> Inl e
           | Inr rest' \<Rightarrow> Inr ((p, data') # rest')))"

fun normalize_operation_ids :: "json \<Rightarrow> error + json" where
  "normalize_operation_ids (JObject openapi) =
     (case map_of openapi ''paths'' of
        None \<Rightarrow> Inl (KeyError ''paths'')
      | Some (JObject paths) \<Rightarrow>
          (case strip_paths paths of
             Inl e \<Rightarrow> Inl e
           | Inr paths' \<Rightarrow> Inr (JObject (setitem openapi ''paths'' (JObject paths'))))
      | Some v \<Rightarrow> Inl (AttributeError (type_name v) ''items''))"
| "normalize_operation_ids v = Inl TypeError"

text \<open>
  \<^verbatim>\<open>export_openapi_spec\<close>. FastAPI's \<^verbatim>\<open>app.openapi()\<close> is a library call, so the
  function from the declared application to its document is a parameter; it may fail.
\<close>

definition export_openapi_spec ::
  "('s fastapi_app \<Rightarrow> error + json) \<Rightarrow> 's DataProductDefinition \<Rightarrow> error + json" where
  "export_openapi_spec app_openapi definition =
     (case app_openapi (fastapi_app_of definition) of
        Inl e \<Rightarrow> Inl e
      | Inr openapi \<Rightarrow> normalize_operation_ids openapi)"

section \<open>The structural comparison of two documents\<close>

text \<open>
  Modelled from the spec: the structural diff, which the converter gets from the
  library call \<^verbatim>\<open>DeepDiff(current_spec, openapi, ignore_order=True)\<close> (line 130) and
  whose code is not under src/. By the spec it is insensitive to the order of mapping
  keys and of lists and sensitive to keys and to values, and two documents are
  equivalent when it reports nothing. \<open>deep_equal a b\<close> says that the diff of \<open>a\<close>
  and \<open>b\<close> is empty: scalars are equal with their type, two dicts have the same keys
  with equivalent values under each key, and two lists have, up to equivalence, the same
  members (the order of a list and how often a member is repeated are not compared).
\<close>

lemma size_map_of_json:
  "map_of kvs k = Some v \<Longrightarrow> size (v::json) < Suc (size_list (size_prod (\<lambda>x. 0) size) kvs)"
  by (induction kvs) (auto split: if_splits)

lemma size_member_json:
  "x \<in> set xs \<Longrightarrow> size (x::json) < Suc (size_list size xs)"
  by (induction xs) auto

function (sequential) deep_equal :: "json \<Rightarrow> json \<Rightarrow> bool" where
  "deep_equal JNull JNull = True"
| "deep_equal (JBool a) (JBool b) = (a = b)"
| "deep_equal (JInt a) (JInt b) = (a = b)"
| "deep_equal (JFloat a) (JFloat b) = (a = b)"
| "deep_equal (JString a) (JString b) = (a = b)"
| "deep_equal (JArray xs) (JArray ys) =
     (list_all (\<lambda>x. list_ex (\<lambda>y. deep_equal x y) ys) xs \<and>
      list_all (\<lambda>y. list_ex (\<lambda>x. deep_equal x y) xs) ys)"
| "deep_equal (JObject kvs) (JObject lws) =
     (set (map fst kvs) = set (map fst lws) \<and>
      list_all (\<lambda>k. case map_of kvs k of
                       None \<Rightarrow> False
                     | Some v \<Rightarrow> (case map_of lws k of
                                   None \<Rightarrow> False
                                 | Some w \<Rightarrow> deep_equal v w))
        (map fst kvs))"
| "deep_equal a b = False"
  by pat_completeness auto
termination
  by (relation "measure (\<lambda>(a, b). size a)")
     (auto dest: size_map_of_json size_member_json)

text \<open>The test of line 130: the diff is not the empty dict.\<close>

definition DeepDiff_nonempty :: "json \<Rightarrow> json \<Rightarrow> bool" where
  "DeepDiff_nonempty t1 t2 = (\<not> deep_equal t1 t2)"

section \<open>The conversion run\<close>

text \<open>
  A definition file found by \<^verbatim>\<open>src.glob("**/*.py")\<close>: its path relative to the source
  folder, whether the import machinery gives it a loader, and what loading the module
  yields. Executing the module may raise; the attribute \<^verbatim>\<open>DEFINITION\<close> of a loaded
  module is absent, a value that is false in a condition (None), or a definition
  (a pydantic model is true in a condition).
\<close>

datatype 's attribute = Absent | Falsy | Definition "'s DataProductDefinition"

datatype 's load_result = LoadRaises | Module "'s attribute"

record 's artifact =
  rel_path :: path
  has_loader :: bool
  loaded :: "'s load_result"

text \<open>
  What the run leaves behind: the text files on disk, the paths handed to
  \<^verbatim>\<open>write_text\<close> in order, and the lines printed.
\<close>

datatype report = Exporting path | Untracked path | Skipping path

record world =
  files :: "path \<rightharpoonup> string"
  written :: "path list"
  printed :: "report list"

text \<open>
  The collaborators outside the repository: the glob of the source folder, FastAPI's
  \<^verbatim>\<open>app.openapi()\<close>, \<^verbatim>\<open>json.loads\<close> (None when the text is no JSON) and
  \<^verbatim>\<open>json.dumps(_, indent=2, ensure_ascii=False)\<close>, the exit status and output of
  \<^verbatim>\<open>git status --short file\<close>, and what \<^verbatim>\<open>pre-commit run --files file\<close> does to
  the files.
\<close>

record 's env =
  glob_py :: "path \<Rightarrow> 's artifact list"
  app_openapi :: "'s fastapi_app \<Rightarrow> error + json"
  json_loads :: "string \<Rightarrow> json option"
  json_dumps :: "json \<Rightarrow> string"
  git_status_short :: "(path \<rightharpoonup> string) \<Rightarrow> path \<Rightarrow> int \<times> string"
  pre_commit_run :: "path \<Rightarrow> (path \<rightharpoonup> string) \<Rightarrow> (path \<rightharpoonup> string)"

text \<open>
  Lines 108-119: the module is loaded, its \<^verbatim>\<open>DEFINITION\<close> is read (\<^verbatim>\<open>getattr\<close>
  without a default raises AttributeError when the attribute is absent), the name is
  set from the relative path and an empty route summary is set to the name.
\<close>

definition load_definition :: "path \<Rightarrow> 's artifact \<Rightarrow> error + 's DataProductDefinition" where
  "load_definition src a =
     (let p = src @ rel_path a in
      if \<not> has_loader a then Inl (RuntimeError (''Failed to import '' @ str_path p @ '' module''))
      else case loaded a of
        LoadRaises \<Rightarrow> Inl (ModuleLoadError (str_path p))
      | Module Absent \<Rightarrow> Inl (AttributeError (str_path p) ''DEFINITION'')
      | Module Falsy \<Rightarrow> Inl (ValueError (''Error finding DEFINITION variable in '' @ str_path p))
      | Module (Definition d) \<Rightarrow>
          (case with_suffix (rel_path a) [] of
             Inl e \<Rightarrow> Inl e
           | Inr q \<Rightarrow>
               let d1 = d\<lparr>name := Some (as_posix q)\<rparr>
               in Inr (if \<not> truthy (route_summary d1)
                       then d1\<lparr>route_summary := name d1\<rparr> else d1)))"

text \<open>Lines 125-127: the document published so far, the empty dict without a file.\<close>

definition read_current :: "'s env \<Rightarrow> path \<Rightarrow> world \<Rightarrow> error + json" where
  "read_current E out_file w =
     (case files w out_file of
        None \<Rightarrow> Inr (JObject [])
      | Some txt \<Rightarrow>
          (case json_loads E txt of None \<Rightarrow> Inl JSONDecodeError | Some j \<Rightarrow> Inr j))"

text \<open>
  \<^verbatim>\<open>file_is_untracked\<close> (lines 165-175): \<^verbatim>\<open>check=True\<close> raises on an exit status
  other than 0; otherwise the file is untracked when the output starts with two
  question marks.
\<close>

definition file_is_untracked :: "'s env \<Rightarrow> path \<Rightarrow> world \<Rightarrow> error + bool" where
  "file_is_untracked E file w =
     (case git_status_short E (files w) file of
        (returncode, stdout) \<Rightarrow>
          if returncode \<noteq> 0 then Inl (CalledProcessError returncode)
          else Inr (prefix ''??'' stdout))"

text \<open>
  Lines 129-145, with the flag \<^verbatim>\<open>should_fail_hook\<close> passed in and returned: a
  document that differs is printed as exported, written with a final newline and
  handed to the pre-commit hooks, and the flag is set; one that does not differ sets
  the flag when its file is untracked and leaves it as it is otherwise.
\<close>

definition publish ::
  "'s env \<Rightarrow> path \<Rightarrow> json \<Rightarrow> bool \<Rightarrow> world \<Rightarrow> (error + bool) \<times> world" where
  "publish E out_file openapi should_fail_hook w =
     (case read_current E out_file w of
        Inl e \<Rightarrow> (Inl e, w)
      | Inr current_spec \<Rightarrow>
          if DeepDiff_nonempty current_spec openapi then
            let w1 = w\<lparr>printed := printed w @ [Exporting out_file]\<rparr>;
                w2 = w1\<lparr>files := (files w1)(out_file \<mapsto> json_dumps E openapi @ [CHR 0x0A]),
                        written := written w1 @ [out_file]\<rparr>;
                w3 = w2\<lparr>files := pre_commit_run E out_file (files w2)\<rparr>
            in (Inr True, w3)
          else
            (case file_is_untracked E out_file w of
               Inl e \<Rightarrow> (Inl e, w)
             | Inr untracked \<Rightarrow>
                 if untracked then (Inr True, w\<lparr>printed := printed w @ [Untracked out_file]\<rparr>)
                 else (Inr should_fail_hook, w\<lparr>printed := printed w @ [Skipping out_file]\<rparr>)))"

text \<open>The body of the loop (lines 108-145) for one artifact.\<close>

definition process ::
  "'s env \<Rightarrow> path \<Rightarrow> path \<Rightarrow> 's artifact \<Rightarrow> bool \<Rightarrow> world \<Rightarrow> (error + bool) \<times> world" where
  "process E src dest a should_fail_hook w =
     (case load_definition src a of
        Inl e \<Rightarrow> (Inl e, w)
      | Inr definition \<Rightarrow>
          (case export_openapi_spec (app_openapi E) definition of
             Inl e \<Rightarrow> (Inl e, w)
           | Inr openapi \<Rightarrow>
               (case with_suffix (dest @ rel_path a) ''.json'' of
                  Inl e \<Rightarrow> (Inl e, w)
                | Inr out_file \<Rightarrow> publish E out_file openapi should_fail_hook w)))"

text \<open>The loop: an exception ends the run where it is raised.\<close>

fun convert_loop ::
  "'s env \<Rightarrow> path \<Rightarrow> path \<Rightarrow> 's artifact list \<Rightarrow> bool \<Rightarrow> world \<Rightarrow> (error + bool) \<times> world" where
  "convert_loop E src dest [] should_fail_hook w = (Inr should_fail_hook, w)"
| "convert_loop E src dest (a # rest) should_fail_hook w =
     (case process E src dest a should_fail_hook w of
        (Inl e, w') \<Rightarrow> (Inl e, w')
      | (Inr flag, w') \<Rightarrow> convert_loop E src dest rest flag w')"

definition convert_data_product_definitions ::
  "'s env \<Rightarrow> path \<Rightarrow> path \<Rightarrow> world \<Rightarrow> (error + bool) \<times> world" where
  "convert_data_product_definitions E src dest w =
     convert_loop E src dest (glob_py E src) False w"

section \<open>Reading a document and a declared application\<close>

text \<open>
  What a reader finds in a document: the entries of its \<^verbatim>\<open>paths\<close> and the operation id
  under \<^verbatim>\<open>post\<close> of an entry; and the header parameters an application declares on
  its routes.
\<close>
definition operation_id_of :: "json \<Rightarrow> string option" where
  "operation_id_of data =
     (case data of
        JObject d \<Rightarrow>
          (case map_of d ''post'' of
             Some (JObject post) \<Rightarrow>
               (case map_of post ''operationId'' of Some (JString s) \<Rightarrow> Some s | _ \<Rightarrow> None)
           | _ \<Rightarrow> None)
      | _ \<Rightarrow> None)"

definition path_items :: "json \<Rightarrow> (string \<times> json) list" where
  "path_items doc =
     (case doc of
        JObject openapi \<Rightarrow> (case map_of openapi ''paths'' of Some (JObject ps) \<Rightarrow> ps | _ \<Rightarrow> [])
      | _ \<Rightarrow> [])"


text \<open>
  What a printed line says of the run: the path it reports as written, and whether it
  reports a change (a document exported, or a file found untracked).
\<close>

fun exported_paths :: "report \<Rightarrow> path list" where
  "exported_paths (Exporting p) = [p]"
| "exported_paths (Untracked p) = []"
| "exported_paths (Skipping p) = []"

fun reports_change :: "report \<Rightarrow> bool" where
  "reports_change (Exporting p) = True"
| "reports_change (Untracked p) = True"
| "reports_change (Skipping p) = False"



section \<open>Example inputs\<close>

text \<open>
  A definition file \<open>orders/create.py\<close>, a file without \<^verbatim>\<open>DEFINITION\<close>, the document
  FastAPI returns for the former, the document published for it (once as written, once
  with its keys in another order), collaborators that know these, and a destination
  folder that holds the published file.
\<close>

definition example_definition :: "unit DataProductDefinition" where
  "example_definition =
     \<lparr>description = None, name = None, request = (), response = (),
      route_description = None, route_summary = None, summary = ''Foo'',
      requires_authorization = False, requires_consent = False\<rparr>"

definition example_artifact :: "unit artifact" where
  "example_artifact =
     \<lparr>rel_path = [''orders'', ''create.py''], has_loader = True,
      loaded = Module (Definition example_definition)\<rparr>"

definition broken_artifact :: "unit artifact" where
  "broken_artifact =
     \<lparr>rel_path = [''broken.py''], has_loader = True, loaded = Module Absent\<rparr>"

definition example_raw_document :: json where
  "example_raw_document =
     JObject [(''openapi'', JString ''3.0.2''),
              (''paths'', JObject [(''/orders/create'', JObject [(''post'',
                 JObject [(''operationId'', JString ''request_orders_create_post'')])])])]"

definition example_document :: json where
  "example_document =
     JObject [(''openapi'', JString ''3.0.2''),
              (''paths'', JObject [(''/orders/create'', JObject [(''post'',
                 JObject [(''operationId'', JString ''request_orders_create'')])])])]"


definition example_env :: "unit artifact list \<Rightarrow> string \<Rightarrow> unit env" where
  "example_env artifacts status =
     \<lparr>glob_py = (\<lambda>src. artifacts),
      app_openapi = (\<lambda>app. Inr example_raw_document),
      json_loads = (\<lambda>contents. if contents = ''published'' then Some example_document else None),
      json_dumps = (\<lambda>j. ''dumped''),
      git_status_short = (\<lambda>fs p. (0, status)),
      pre_commit_run = (\<lambda>p fs. fs)\<rparr>"

definition example_out_file :: path where
  "example_out_file = [''out'', ''orders'', ''create.json'']"

definition example_world :: world where
  "example_world =
     \<lparr>files = [example_out_file \<mapsto> ''published''], written = [], printed = []\<rparr>"

section \<open>Auxiliary facts\<close>

lemma map_of_setitem: "map_of (setitem kvs k v) k' = (if k' = k then Some v else map_of kvs k')"
  by (induction kvs k v rule: setitem.induct) auto

lemma strip_operation_id_result:
  assumes "strip_operation_id data = Inr data'"
  shows "\<exists>s. operation_id_of data = Some s \<and>
             operation_id_of data' = Some (removesuffix s ''_post'')"
  using assms
  by (cases data)
     (auto simp: operation_id_of_def map_of_setitem
           split: option.splits json.splits)

lemma strip_paths_result:
  "strip_paths ps = Inr ps' \<Longrightarrow>
     map fst ps' = map fst ps \<and>
     list_all2 (\<lambda>e e'. \<exists>s. operation_id_of (snd e) = Some s \<and>
                  operation_id_of (snd e') = Some (removesuffix s ''_post'')) ps ps'"
proof (induction ps arbitrary: ps')
  case Nil
  then show ?case by simp
next
  case (Cons e ps)
  obtain p data where e: "e = (p, data)" by (cases e)
  from Cons.prems e obtain data' rest' where
    d: "strip_operation_id data = Inr data'" and r: "strip_paths ps = Inr rest'"
    and ps': "ps' = (p, data') # rest'"
    by (auto split: sum.splits)
  from strip_operation_id_result[OF d] Cons.IH[OF r] e ps' show ?case by simp
qed

lemma normalize_operation_ids_result:
  assumes "normalize_operation_ids raw = Inr doc"
  shows "map fst (path_items doc) = map fst (path_items raw) \<and>
         list_all2 (\<lambda>e e'. \<exists>s. operation_id_of (snd e) = Some s \<and>
                  operation_id_of (snd e') = Some (removesuffix s ''_post''))
           (path_items raw) (path_items doc)"
  using assms
  by (cases raw)
     (auto simp: path_items_def map_of_setitem dest: strip_paths_result
           split: option.splits json.splits sum.splits)

lemma deep_equal_refl: "deep_equal x x"
proof (induction x)
  case (JArray xs)
  then show ?case by (auto simp: list_all_iff list_ex_iff)
next
  case (JObject kvs)
  have "\<And>k. k \<in> fst ` set kvs \<Longrightarrow> \<exists>v. map_of kvs k = Some v \<and> deep_equal v v"
  proof -
    fix k assume "k \<in> fst ` set kvs"
    then obtain v where v: "map_of kvs k = Some v"
      by (metis domD dom_map_of_conv_image_fst)
    then have "(k, v) \<in> set kvs" by (rule map_of_SomeD)
    with JObject.IH[of "(k, v)" v] have "deep_equal v v" by simp
    with v show "\<exists>v. map_of kvs k = Some v \<and> deep_equal v v" by blast
  qed
  then show ?case by (fastforce simp: list_all_iff)
qed simp_all

lemma removesuffix_twice:
  "removesuffix (removesuffix s ''_post'') ''_post'' = removesuffix s ''_post''
     \<longleftrightarrow> \<not> suffix ''_post_post'' s"
proof (cases "suffix ''_post'' s")
  case False
  then have "\<not> suffix ''_post_post'' s"
    by (auto simp: suffix_def)
  with False show ?thesis by (simp add: removesuffix_def)
next
  case True
  then obtain t where s: "s = t @ ''_post''" by (auto simp: suffix_def)
  have "suffix ''_post_post'' s \<longleftrightarrow> suffix ''_post'' t"
    unfolding s by (auto simp: suffix_def)
  moreover have "removesuffix s ''_post'' = t" using True by (simp add: removesuffix_def s)
  moreover have "suffix ''_post'' t \<Longrightarrow> removesuffix t ''_post'' \<noteq> t"
    by (auto simp: removesuffix_def suffix_def)
  moreover have "\<not> suffix ''_post'' t \<Longrightarrow> removesuffix t ''_post'' = t"
    by (simp add: removesuffix_def)
  ultimately show ?thesis by auto
qed

lemma with_suffix_py:
  "stem \<noteq> [] \<Longrightarrow> with_suffix (dirs @ [stem @ ''.py'']) s = Inr (dirs @ [stem @ s])"
  by (simp add: with_suffix_def path_suffix_def rfind_dot_def Let_def)

lemma publish_report:
  "publish E out_file openapi f w = (Inr b, w1) \<Longrightarrow>
     \<exists>r. printed w1 = printed w @ [r] \<and> written w1 = written w @ exported_paths r \<and>
         b = (f \<or> reports_change r)"
  by (auto simp: publish_def Let_def split: sum.splits if_splits)

lemma process_report:
  "process E src dest a f w = (Inr b, w1) \<Longrightarrow>
     \<exists>r. printed w1 = printed w @ [r] \<and> written w1 = written w @ exported_paths r \<and>
         b = (f \<or> reports_change r)"
  by (auto simp: process_def dest: publish_report split: sum.splits)

lemma convert_loop_reports:
  "convert_loop E src dest as f w = (Inr b, w1) \<Longrightarrow>
     \<exists>rs. length rs = length as \<and> printed w1 = printed w @ rs \<and>
          written w1 = written w @ concat (map exported_paths rs) \<and>
          b = (f \<or> (\<exists>r \<in> set rs. reports_change r))"
proof (induction as arbitrary: f w)
  case Nil
  then show ?case by simp
next
  case (Cons a as)
  from Cons.prems obtain f' w' where
    p: "process E src dest a f w = (Inr f', w')" and
    l: "convert_loop E src dest as f' w' = (Inr b, w1)"
    by (auto split: prod.splits sum.splits)
  from process_report[OF p] obtain r where
    r: "printed w' = printed w @ [r]" "written w' = written w @ exported_paths r"
       "f' = (f \<or> reports_change r)" by blast
  from Cons.IH[OF l] obtain rs where
    rs: "length rs = length as" "printed w1 = printed w' @ rs"
        "written w1 = written w' @ concat (map exported_paths rs)"
        "b = (f' \<or> (\<exists>r \<in> set rs. reports_change r))" by blast
  show ?case
    by (rule exI[of _ "r # rs"]) (use r rs in auto)
qed

lemma convert_loop_append:
  "convert_loop E src dest (xs @ ys) f w =
     (case convert_loop E src dest xs f w of
        (Inl e, w') \<Rightarrow> (Inl e, w')
      | (Inr f', w') \<Rightarrow> convert_loop E src dest ys f' w')"
  by (induction xs arbitrary: f w) (auto split: prod.splits sum.splits)








lemma publish_no_difference:
  assumes "read_current E out_file w = Inr current"
    and "\<not> DeepDiff_nonempty current openapi"
    and "git_status_short E (files w) out_file = (0, status)"
  shows "publish E out_file openapi flag w =
           (if prefix ''??'' status
            then (Inr True, w\<lparr>printed := printed w @ [Untracked out_file]\<rparr>)
            else (Inr flag, w\<lparr>printed := printed w @ [Skipping out_file]\<rparr>))"
  using assms by (simp add: publish_def file_is_untracked_def)

lemma example_read_current:
  "read_current (example_env artifacts status) example_out_file example_world
     = Inr example_document"
  by (simp add: read_current_def example_env_def example_world_def)

lemma example_git_status:
  "git_status_short (example_env artifacts status) (files example_world) example_out_file
     = (0, status)"
  by (simp add: example_env_def)

lemma example_glob: "glob_py (example_env artifacts status) src = artifacts"
  by (simp add: example_env_def)

lemma example_process_status:
  "process (example_env artifacts status) [''definitions''] [''out''] example_artifact flag w
    = publish (example_env artifacts status) example_out_file example_document flag w"
  by (simp add: example_env_def example_artifact_def example_definition_def
        example_raw_document_def example_document_def example_out_file_def process_def load_definition_def
        export_openapi_spec_def with_suffix_def path_suffix_def rfind_dot_def str_path_def
        as_posix_def removesuffix_def suffix_def Let_def)

lemma example_publish_tracked:
  "publish (example_env artifacts []) example_out_file example_document flag example_world =
     (Inr flag, example_world\<lparr>printed := [Skipping example_out_file]\<rparr>)"
  using publish_no_difference [OF example_read_current _ example_git_status,
      of example_document artifacts "[]" flag]
  by (simp add: DeepDiff_nonempty_def deep_equal_refl example_world_def)


section \<open>The constructor\<close>

text \<open>
  Claim C6. A definition constructed with a non-empty summary and with neither a
  description nor a route description has both equal to the summary afterwards;
  constructed with only the summary Foo, both are Foo.
\<close>

theorem init_defaults_to_summary:
  assumes "summary kwargs \<noteq> []"
    and "description kwargs = None"
    and "route_description kwargs = None"
  shows "description (init kwargs) = Some (summary kwargs) \<and>
         route_description (init kwargs) = Some (summary kwargs)"
  using assms by (simp add: init_def Let_def)

theorem init_defaults_to_summary_witness:
  "description (init \<lparr>description = None, name = None, request = (), response = (),
       route_description = None, route_summary = None, summary = ''Foo'',
       requires_authorization = False, requires_consent = False\<rparr>) = Some ''Foo'' \<and>
   route_description (init \<lparr>description = None, name = None, request = (), response = (),
       route_description = None, route_summary = None, summary = ''Foo'',
       requires_authorization = False, requires_consent = False\<rparr>) = Some ''Foo''"
  using init_defaults_to_summary [of "\<lparr>description = None, name = None, request = (),
       response = (), route_description = None, route_summary = None, summary = ''Foo'',
       requires_authorization = False, requires_consent = False\<rparr>"]
  by simp

text \<open>
  Claim C10. With a non-empty summary the constructor treats an empty description, or an
  empty route description, as it treats an unset one: the constructed definition is the
  same and the field holds the summary. A non-empty description or route description
  that was passed is kept.
\<close>

theorem init_empty_string_as_unset:
  assumes "summary kwargs \<noteq> []"
  shows "init (kwargs\<lparr>description := Some []\<rparr>) = init (kwargs\<lparr>description := None\<rparr>) \<and>
         init (kwargs\<lparr>route_description := Some []\<rparr>) =
           init (kwargs\<lparr>route_description := None\<rparr>) \<and>
         description (init (kwargs\<lparr>description := Some []\<rparr>)) = Some (summary kwargs) \<and>
         route_description (init (kwargs\<lparr>route_description := Some []\<rparr>)) =
           Some (summary kwargs) \<and>
         (\<forall>s. s \<noteq> [] \<longrightarrow> description (init (kwargs\<lparr>description := Some s\<rparr>)) = Some s) \<and>
         (\<forall>s. s \<noteq> [] \<longrightarrow>
              route_description (init (kwargs\<lparr>route_description := Some s\<rparr>)) = Some s)"
  using assms by (simp add: init_def Let_def)

theorem init_empty_string_as_unset_witness:
  "description (init \<lparr>description = Some [], name = None, request = (), response = (),
       route_description = Some ''Route'', route_summary = None, summary = ''Foo'',
       requires_authorization = False, requires_consent = False\<rparr>) = Some ''Foo'' \<and>
   route_description (init \<lparr>description = Some [], name = None, request = (), response = (),
       route_description = Some ''Route'', route_summary = None, summary = ''Foo'',
       requires_authorization = False, requires_consent = False\<rparr>) = Some ''Route''"
proof -
  let ?k = "\<lparr>description = None, name = None, request = (), response = (),
       route_description = None, route_summary = None, summary = ''Foo'',
       requires_authorization = False, requires_consent = False\<rparr>"
  have s: "summary (?k\<lparr>route_description := Some ''Route''\<rparr>) \<noteq> []"
    and t: "summary (?k\<lparr>description := Some []\<rparr>) \<noteq> []" by simp_all
  from init_empty_string_as_unset [OF s, THEN conjunct2, THEN conjunct2, THEN conjunct1]
  have "description (init (?k\<lparr>route_description := Some ''Route'', description := Some []\<rparr>))
          = Some ''Foo''" by simp
  moreover from init_empty_string_as_unset [OF t, THEN conjunct2, THEN conjunct2,
      THEN conjunct2, THEN conjunct2, THEN conjunct2]
  have "route_description (init (?k\<lparr>description := Some [], route_description := Some ''Route''\<rparr>))
          = Some ''Route''" by simp
  ultimately show ?thesis by simp
qed

section \<open>The loader\<close>

text \<open>
  Claim C5. For an artifact whose module holds a definition and whose relative path ends
  in a file \<open>stem.py\<close>, the loader sets the name to the relative path without the
  extension, its components joined by forward slashes, and a route summary that is
  unset (None, or empty) to that name; a route summary that was given is kept. The
  artifact \<open>orders/create.py\<close> gets the name and the route summary \<open>orders/create\<close>.
\<close>

theorem loader_assigns_name:
  assumes "has_loader a"
    and "loaded a = Module (Definition d)"
    and "rel_path a = dirs @ [stem @ ''.py'']"
    and "stem \<noteq> []"
  shows "load_definition src a =
           Inr (d\<lparr>name := Some (join ''/'' (dirs @ [stem])),
                  route_summary := (if truthy (route_summary d) then route_summary d
                                    else Some (join ''/'' (dirs @ [stem])))\<rparr>)"
  using assms
  by (simp add: load_definition_def with_suffix_py as_posix_def str_path_def Let_def)

theorem loader_assigns_name_witness:
  "load_definition [''definitions'']
     \<lparr>rel_path = [''orders'', ''create.py''], has_loader = True,
      loaded = Module (Definition \<lparr>description = None, name = None, request = (),
        response = (), route_description = None, route_summary = None, summary = ''Foo'',
        requires_authorization = False, requires_consent = False\<rparr>)\<rparr>
   = Inr \<lparr>description = None, name = Some ''orders/create'', request = (),
        response = (), route_description = None, route_summary = Some ''orders/create'',
        summary = ''Foo'', requires_authorization = False, requires_consent = False\<rparr>"
  using loader_assigns_name [of "\<lparr>rel_path = [''orders'', ''create.py''], has_loader = True,
      loaded = Module (Definition \<lparr>description = None, name = None, request = (),
        response = (), route_description = None, route_summary = None, summary = ''Foo'',
        requires_authorization = False, requires_consent = False\<rparr>)\<rparr>"
      "\<lparr>description = None, name = None, request = (),
        response = (), route_description = None, route_summary = None, summary = ''Foo'',
        requires_authorization = False, requires_consent = False\<rparr>"
      "[''orders'']" "''create''" "[''definitions'']"]
  by simp

section \<open>The synthesizer\<close>



text \<open>
  Claim C8 as stated says that stripping the suffix twice equals stripping it once for
  any operation id. \<^verbatim>\<open>removesuffix\<close> cuts one occurrence: the id that FastAPI gives the
  route of a definition named \<open>foo_post\<close> ends in the suffix twice, and the second
  strip cuts again.
\<close>

theorem operation_id_strip_not_idempotent:
  "removesuffix (removesuffix ''request_foo_post_post'' ''_post'') ''_post''
     \<noteq> removesuffix ''request_foo_post_post'' ''_post''"
  by (simp add: removesuffix_def suffix_def)

text \<open>
  Claim C8, amended. When FastAPI returns the document \<open>raw\<close> and the synthesis
  returns \<open>doc\<close>, the two have the same path entries in the same order, every entry
  of \<open>raw\<close> has an operation id, and the id of the entry in \<open>doc\<close> is that id with
  one trailing \<open>_post\<close> cut off. Synthesizing the same definition again gives a
  structurally identical document. Stripping an id twice equals stripping it once
  exactly when the id does not end in \<open>_post_post\<close>.
\<close>

theorem operation_id_normalization:
  assumes "gen (fastapi_app_of d) = Inr raw"
    and "export_openapi_spec gen d = Inr doc"
  shows "map fst (path_items doc) = map fst (path_items raw) \<and>
         list_all2 (\<lambda>e e'. \<exists>s. operation_id_of (snd e) = Some s \<and>
                      operation_id_of (snd e') = Some (removesuffix s ''_post''))
           (path_items raw) (path_items doc) \<and>
         (\<forall>doc'. export_openapi_spec gen d = Inr doc' \<longrightarrow> deep_equal doc doc') \<and>
         (\<forall>s. removesuffix (removesuffix s ''_post'') ''_post'' = removesuffix s ''_post''
                \<longleftrightarrow> \<not> suffix ''_post_post'' s)"
proof -
  from assms have n: "normalize_operation_ids raw = Inr doc"
    by (simp add: export_openapi_spec_def)
  from assms(2) have "\<forall>doc'. export_openapi_spec gen d = Inr doc' \<longrightarrow> deep_equal doc doc'"
    by (simp add: deep_equal_refl)
  with normalize_operation_ids_result [OF n] removesuffix_twice show ?thesis by blast
qed

theorem operation_id_normalization_witness:
  "export_openapi_spec
     (\<lambda>app. Inr (JObject [(''paths'', JObject [(''/foo_post'', JObject [(''post'',
        JObject [(''operationId'', JString ''request_foo_post_post'')])])])]))
     \<lparr>description = None, name = Some ''foo_post'', request = (), response = (),
      route_description = None, route_summary = None, summary = ''Foo'',
      requires_authorization = False, requires_consent = False\<rparr>
   = Inr (JObject [(''paths'', JObject [(''/foo_post'', JObject [(''post'',
        JObject [(''operationId'', JString ''request_foo_post'')])])])]) \<and>
   list_all2 (\<lambda>e e'. \<exists>s. operation_id_of (snd e) = Some s \<and>
                operation_id_of (snd e') = Some (removesuffix s ''_post''))
     (path_items (JObject [(''paths'', JObject [(''/foo_post'', JObject [(''post'',
        JObject [(''operationId'', JString ''request_foo_post_post'')])])])]))
     (path_items (JObject [(''paths'', JObject [(''/foo_post'', JObject [(''post'',
        JObject [(''operationId'', JString ''request_foo_post'')])])])]))"
proof -
  let ?raw = "JObject [(''paths'', JObject [(''/foo_post'', JObject [(''post'',
        JObject [(''operationId'', JString ''request_foo_post_post'')])])])]"
  let ?doc = "JObject [(''paths'', JObject [(''/foo_post'', JObject [(''post'',
        JObject [(''operationId'', JString ''request_foo_post'')])])])]"
  let ?d = "\<lparr>description = None, name = Some ''foo_post'', request = (), response = (),
      route_description = None, route_summary = None, summary = ''Foo'',
      requires_authorization = False, requires_consent = False\<rparr>"
  have g: "(\<lambda>app. Inr ?raw) (fastapi_app_of ?d) = Inr ?raw" by simp
  have e: "export_openapi_spec (\<lambda>app. Inr ?raw) ?d = Inr ?doc"
    by (simp add: export_openapi_spec_def removesuffix_def suffix_def)
  from operation_id_normalization [of "\<lambda>app. Inr ?raw" ?d ?raw ?doc, OF g e] e
  show ?thesis by blast
qed

section \<open>The publisher\<close>

text \<open>
  Claim C1. Whatever publishing a candidate document returns, either nothing was written
  and the files are as before, or the document published so far (the empty dict when
  there is no file) differs from the candidate by the structural diff and the
  destination file is the one written. When the destination file holds exactly the
  candidate and git reports it as tracked, nothing is written and the flag stays as it
  was: the definition reports no change.
\<close>

theorem publish_writes_only_on_difference:
  "(\<forall>r w'. publish E out_file openapi flag w = (r, w') \<longrightarrow>
      (written w' = written w \<and> files w' = files w) \<or>
      (\<exists>current. read_current E out_file w = Inr current \<and>
         (files w out_file = None \<longrightarrow> current = JObject []) \<and>
         DeepDiff_nonempty current openapi \<and> written w' = written w @ [out_file])) \<and>
   (\<forall>contents status. files w out_file = Some contents \<longrightarrow>
      json_loads E contents = Some openapi \<longrightarrow>
      git_status_short E (files w) out_file = (0, status) \<longrightarrow> \<not> prefix ''??'' status \<longrightarrow>
      publish E out_file openapi flag w =
        (Inr flag, w\<lparr>printed := printed w @ [Skipping out_file]\<rparr>))"
proof (intro conjI allI impI)
  fix r w'
  assume "publish E out_file openapi flag w = (r, w')"
  then show "(written w' = written w \<and> files w' = files w) \<or>
      (\<exists>current. read_current E out_file w = Inr current \<and>
         (files w out_file = None \<longrightarrow> current = JObject []) \<and>
         DeepDiff_nonempty current openapi \<and> written w' = written w @ [out_file])"
    by (auto simp: publish_def Let_def read_current_def split: sum.splits if_splits option.splits)
next
  fix contents status
  assume "files w out_file = Some contents" "json_loads E contents = Some openapi"
    "git_status_short E (files w) out_file = (0, status)" "\<not> prefix ''??'' status"
  then show "publish E out_file openapi flag w =
        (Inr flag, w\<lparr>printed := printed w @ [Skipping out_file]\<rparr>)"
    by (simp add: publish_def read_current_def file_is_untracked_def DeepDiff_nonempty_def
        deep_equal_refl)
qed

theorem publish_writes_only_on_difference_witness:
  "publish (example_env [] []) example_out_file example_document False example_world =
     (Inr False, example_world\<lparr>printed := printed example_world @ [Skipping example_out_file]\<rparr>)"
proof -
  have f: "files example_world example_out_file = Some ''published''"
    by (simp add: example_world_def)
  have l: "json_loads (example_env [] []) ''published'' = Some example_document"
    by (simp add: example_env_def)
  have p: "\<not> prefix ''??'' []" by simp
  from publish_writes_only_on_difference [of "example_env [] []" example_out_file
      example_document False example_world, THEN conjunct2, rule_format,
      OF f l example_git_status p]
  show ?thesis .
qed






section \<open>The pipeline driver\<close>



text \<open>
  Claim C9. When the files before an artifact are processed without an exception and
  the module of that artifact has no \<^verbatim>\<open>DEFINITION\<close>, or one that is None, the run ends
  with the exception for that artifact (the AttributeError of \<^verbatim>\<open>getattr\<close> for an absent
  attribute, the ValueError of line 114 for None, both naming the file) in the state
  that the earlier files left: their reports and the documents written for them stay,
  and no later artifact is processed or written.
\<close>

theorem missing_definition_halts_run:
  assumes "glob_py E src = earlier @ a # later"
    and "convert_loop E src dest earlier False w = (Inr flag, w1)"
    and "has_loader a"
    and "loaded a = Module attr"
    and "attr = Absent \<or> attr = Falsy"
  shows "convert_data_product_definitions E src dest w =
           (Inl (if attr = Absent
                 then AttributeError (str_path (src @ rel_path a)) ''DEFINITION''
                 else ValueError (''Error finding DEFINITION variable in ''
                                   @ str_path (src @ rel_path a))), w1) \<and>
         (\<exists>rs. length rs = length earlier \<and> printed w1 = printed w @ rs \<and>
               written w1 = written w @ concat (map exported_paths rs))"
proof -
  have "process E src dest a flag w1 =
          (Inl (if attr = Absent
                 then AttributeError (str_path (src @ rel_path a)) ''DEFINITION''
                 else ValueError (''Error finding DEFINITION variable in ''
                                   @ str_path (src @ rel_path a))), w1)"
    using assms(3,4,5) by (auto simp: process_def load_definition_def Let_def)
  with assms(1,2) have "convert_data_product_definitions E src dest w =
           (Inl (if attr = Absent
                 then AttributeError (str_path (src @ rel_path a)) ''DEFINITION''
                 else ValueError (''Error finding DEFINITION variable in ''
                                   @ str_path (src @ rel_path a))), w1)"
    by (simp add: convert_data_product_definitions_def convert_loop_append)
  moreover from convert_loop_reports [OF assms(2)]
  have "\<exists>rs. length rs = length earlier \<and> printed w1 = printed w @ rs \<and>
               written w1 = written w @ concat (map exported_paths rs)" by blast
  ultimately show ?thesis by blast
qed

theorem missing_definition_halts_run_witness:
  "convert_data_product_definitions
     (example_env [example_artifact, broken_artifact, example_artifact] [])
     [''definitions''] [''out''] example_world =
     (Inl (AttributeError ''definitions/broken.py'' ''DEFINITION''),
      example_world\<lparr>printed := [Skipping example_out_file]\<rparr>)"
proof -
  let ?E = "example_env [example_artifact, broken_artifact, example_artifact] []"
  have g: "glob_py ?E [''definitions''] = [example_artifact] @ broken_artifact # [example_artifact]"
    by (simp add: example_glob)
  have e: "convert_loop ?E [''definitions''] [''out''] [example_artifact] False example_world =
     (Inr False, example_world\<lparr>printed := [Skipping example_out_file]\<rparr>)"
    by (simp add: example_process_status example_publish_tracked)
  have h: "has_loader broken_artifact" and l: "loaded broken_artifact = Module Absent"
    by (simp_all add: broken_artifact_def)
  have a: "(Absent :: unit attribute) = Absent \<or> (Absent :: unit attribute) = Falsy" by simp
  from missing_definition_halts_run [OF g e h l a, THEN conjunct1]
  show ?thesis by (simp add: broken_artifact_def str_path_def)
qed

end
